theory Spec2Isabelle
  imports Complex_Main "HOL-Library.Log_Nat"
begin

chapter \<open>MindfulMate: the emotion and risk pipeline\<close>

text \<open>
  A shallow embedding of the emotion-inference pipeline of MindfulMate:
  \<^item> \<^verbatim>\<open>src/core/emotion_analyzer.py\<close>: the voice scorer, the text analyzer and the fusion;
  \<^item> \<^verbatim>\<open>src/core/conversation_manager.py\<close>: sessions, histories and risk flags;
  \<^item> \<^verbatim>\<open>src/therapeutic/crisis_detection.py\<close>: the keyword and phrase crisis detector.

  Python values are modelled as follows. A \<^verbatim>\<open>float\<close> is the rational number it denotes, and
  every arithmetic operation rounds its exact result to the nearest double
  (\<open>to_double\<close>); an \<^verbatim>\<open>int\<close> is an \<open>int\<close> or \<open>nat\<close>; a \<^verbatim>\<open>str\<close> is a \<open>string\<close>;
  a \<^verbatim>\<open>dict\<close> whose order matters is an association list; \<^verbatim>\<open>datetime\<close> values are
  microseconds on the integer line; every \<^verbatim>\<open>datetime.now()\<close> and \<^verbatim>\<open>uuid.uuid4()\<close> is a
  parameter of the function that calls it; a raised exception is a value of \<open>py_error\<close>.
\<close>

section \<open>Python floats\<close>

text \<open>
  IEEE 754 binary64, round to nearest, ties to even. A finite double is a rational
  \<open>m * 2 powi e\<close> with \<open>\<bar>m\<bar> \<le> 2 ^ 53\<close> and \<open>e \<ge> -1074\<close>. \<open>ilog2 x\<close> is the binade of a
  positive \<open>x\<close>, \<open>ulp_exp x\<close> the exponent of the last mantissa bit (clamped at the
  subnormal exponent), and \<open>to_double\<close> rounds to that grid. Overflow to infinity and NaN
  are not modelled: the arithmetic of this program stays below 4 in magnitude.
\<close>

definition round_even :: "rat \<Rightarrow> int" where
  "round_even q = (let f = \<lfloor>q\<rfloor>; r = q - of_int f in
     if r < 1 / 2 then f else if 1 / 2 < r then f + 1 else if even f then f else f + 1)"

definition ilog2 :: "rat \<Rightarrow> int" where
  "ilog2 x = (if 1 \<le> x then bitlen \<lfloor>x\<rfloor> - 1 else - bitlen (\<lceil>1 / x\<rceil> - 1))"

definition ulp_exp :: "rat \<Rightarrow> int" where
  "ulp_exp x = max (ilog2 \<bar>x\<bar> - 52) (- 1074)"

definition to_double :: "rat \<Rightarrow> rat" where
  "to_double x = (if x = 0 then 0
     else of_int (round_even (x / 2 powi ulp_exp x)) * 2 powi ulp_exp x)"

text \<open>A decimal literal of the source, such as \<^verbatim>\<open>0.3\<close>, is the double nearest to it.\<close>

definition lit :: "rat \<Rightarrow> rat" where
  "lit q = to_double q"

definition fadd :: "rat \<Rightarrow> rat \<Rightarrow> rat" where
  "fadd x y = to_double (x + y)"

definition fmul :: "rat \<Rightarrow> rat \<Rightarrow> rat" where
  "fmul x y = to_double (x * y)"

definition fdiv :: "rat \<Rightarrow> rat \<Rightarrow> rat" where
  "fdiv x y = to_double (x / y)"

text \<open>
  Python's two-argument \<^verbatim>\<open>min(a, b)\<close> and \<^verbatim>\<open>max(a, b)\<close> keep the first argument unless the
  second is strictly smaller (larger).
\<close>

definition py_min :: "rat \<Rightarrow> rat \<Rightarrow> rat" where
  "py_min a b = (if b < a then b else a)"

definition py_max :: "rat \<Rightarrow> rat \<Rightarrow> rat" where
  "py_max a b = (if a < b then b else a)"

section \<open>Python containers and strings\<close>

datatype py_error = ValueError | KeyError | ZeroDivisionError | OverflowError

text \<open>\<^verbatim>\<open>d.get(k, default)\<close> on a dict.\<close>

definition dict_get :: "('k \<rightharpoonup> 'v) \<Rightarrow> 'k \<Rightarrow> 'v \<Rightarrow> 'v" where
  "dict_get d k dflt = (case d k of None \<Rightarrow> dflt | Some v \<Rightarrow> v)"

text \<open>\<^verbatim>\<open>d[k]\<close> on an insertion-ordered dict: the value, or \<^verbatim>\<open>KeyError\<close>.\<close>

fun lookup :: "('k \<times> 'v) list \<Rightarrow> 'k \<Rightarrow> py_error + 'v" where
  "lookup [] k = Inl KeyError"
| "lookup ((k', v) # kvs) k = (if k' = k then Inr v else lookup kvs k)"

text \<open>
  \<^verbatim>\<open>max(d, key=d.get)\<close> walks the keys in insertion order and replaces the best key only
  when a later one is strictly larger, so the first maximal key wins; on an empty dict
  it raises \<^verbatim>\<open>ValueError\<close>.
\<close>

fun max_from :: "('k \<times> rat) \<Rightarrow> ('k \<times> rat) list \<Rightarrow> ('k \<times> rat)" where
  "max_from best [] = best"
| "max_from best (kv # kvs) = max_from (if snd best < snd kv then kv else best) kvs"

fun max_key :: "('k \<times> rat) list \<Rightarrow> py_error + ('k \<times> rat)" where
  "max_key [] = Inl ValueError"
| "max_key (kv # kvs) = Inr (max_from kv kvs)"

text \<open>
  \<^verbatim>\<open>str.lower()\<close> on the ASCII letters; strings are byte lists here, and bytes outside
  \<^verbatim>\<open>A-Z\<close> are left alone.
\<close>

definition lower_char :: "char \<Rightarrow> char" where
  "lower_char c = (if (65::nat) \<le> of_char c \<and> (of_char c :: nat) \<le> 90
     then char_of ((of_char c :: nat) + 32) else c)"

definition lower :: "string \<Rightarrow> string" where
  "lower s = map lower_char s"

text \<open>\<^verbatim>\<open>s.startswith(p)\<close> and the substring test \<^verbatim>\<open>k in s\<close>.\<close>

fun startswith :: "string \<Rightarrow> string \<Rightarrow> bool" where
  "startswith s [] = True"
| "startswith [] (p # ps) = False"
| "startswith (c # cs) (p # ps) = (c = p \<and> startswith cs ps)"

fun contains :: "string \<Rightarrow> string \<Rightarrow> bool" where
  "contains [] k = (k = [])"
| "contains (c # cs) k = (startswith (c # cs) k \<or> contains cs k)"

text \<open>\<^verbatim>\<open>sum(1 for k in ks if k in text)\<close>.\<close>

definition count_matches :: "string list \<Rightarrow> string \<Rightarrow> nat" where
  "count_matches ks text = length (filter (contains text) ks)"

text \<open>
  The slice \<^verbatim>\<open>xs[i:]\<close>: a negative \<open>i\<close> counts from the end, and an index beyond either
  end is clamped. In particular \<^verbatim>\<open>xs[-0:]\<close> is \<^verbatim>\<open>xs[0:]\<close>, the whole list.
\<close>

definition slice_from :: "int \<Rightarrow> 'a list \<Rightarrow> 'a list" where
  "slice_from i xs = (if i < 0 then drop (length xs - nat (- i)) xs else drop (nat i) xs)"

section \<open>The data model (emotion\_analyzer.py)\<close>

datatype EmotionState =
  ANXIOUS | DEPRESSED | STRESSED | ANGRY | HAPPY | CALM | CONFUSED | EXCITED

datatype RiskLevel = LOW | MEDIUM | HIGH | CRISIS

record EmotionAnalysis =
  primary_emotion :: EmotionState
  confidence :: rat
  risk_level :: RiskLevel
  emotional_indicators :: "string list"
  suggested_technique :: string
  intensity :: string
  patterns :: "string list"

text \<open>The \<^verbatim>\<open>.value\<close> of the two enums.\<close>

fun emotion_value :: "EmotionState \<Rightarrow> string" where
  "emotion_value ANXIOUS = ''anxious''"
| "emotion_value DEPRESSED = ''depressed''"
| "emotion_value STRESSED = ''stressed''"
| "emotion_value ANGRY = ''angry''"
| "emotion_value HAPPY = ''happy''"
| "emotion_value CALM = ''calm''"
| "emotion_value CONFUSED = ''confused''"
| "emotion_value EXCITED = ''excited''"

fun risk_value :: "RiskLevel \<Rightarrow> string" where
  "risk_value LOW = ''low''"
| "risk_value MEDIUM = ''medium''"
| "risk_value HIGH = ''high''"
| "risk_value CRISIS = ''crisis''"

section \<open>VoiceEmotionAnalyzer\<close>

text \<open>
  The voice features are a dict from feature names to numbers; each number is the
  rational it denotes (a Python \<^verbatim>\<open>int\<close> and a \<^verbatim>\<open>float\<close> compare by value).
\<close>

type_synonym voice_features = "string \<rightharpoonup> rat"

definition calculate_anxiety_score :: "rat \<Rightarrow> rat \<Rightarrow> rat \<Rightarrow> rat \<Rightarrow> rat" where
  "calculate_anxiety_score pitch_mean pitch_variance speech_rate energy =
    (let score = 0;
         score = (if 75 < pitch_variance then fadd score (lit (3 / 10)) else score);
         score = (if 180 < speech_rate then fadd score (lit (3 / 10)) else score);
         score = (if 200 < pitch_mean then fadd score (lit (2 / 10)) else score);
         score = (if lit (6 / 10) < energy \<and> (60 < pitch_variance \<or> 170 < speech_rate)
                  then fadd score (lit (2 / 10)) else score)
     in py_min score 1)"

definition calculate_depression_score :: "rat \<Rightarrow> rat \<Rightarrow> rat \<Rightarrow> rat \<Rightarrow> rat" where
  "calculate_depression_score pitch_mean energy pause_duration speech_rate =
    (let score = 0;
         score = (if energy < lit (3 / 10) then fadd score (lit (4 / 10)) else score);
         score = (if pitch_mean < 120 then fadd score (lit (3 / 10)) else score);
         score = (if lit (15 / 10) < pause_duration then fadd score (lit (3 / 10)) else score);
         score = (if speech_rate < 120 then fadd score (lit (2 / 10)) else score)
     in py_min score 1)"

definition calculate_stress_score :: "rat \<Rightarrow> rat \<Rightarrow> rat \<Rightarrow> rat" where
  "calculate_stress_score speech_rate pitch_variance energy =
    (let score = 0;
         score = (if 200 < speech_rate \<or> speech_rate < 100
                  then fadd score (lit (3 / 10)) else score);
         score = (if 80 < pitch_variance then fadd score (lit (3 / 10)) else score);
         score = (if lit (7 / 10) < energy \<and> 60 < pitch_variance
                  then fadd score (lit (2 / 10)) else score);
         score = (if (lit (4 / 10) < energy \<and> energy < lit (7 / 10))
                      \<and> (190 < speech_rate \<or> speech_rate < 110)
                  then fadd score (lit (2 / 10)) else score)
     in py_min score 1)"

definition calculate_anger_score :: "rat \<Rightarrow> rat \<Rightarrow> rat \<Rightarrow> rat" where
  "calculate_anger_score pitch_mean energy speech_rate =
    (let score = 0;
         score = (if lit (8 / 10) < energy then fadd score (lit (4 / 10)) else score);
         score = (if 180 < pitch_mean then fadd score (lit (3 / 10)) else score);
         score = (if 190 < speech_rate then fadd score (lit (3 / 10)) else score)
     in py_min score 1)"

definition calculate_happiness_score :: "rat \<Rightarrow> rat \<Rightarrow> rat \<Rightarrow> rat \<Rightarrow> rat" where
  "calculate_happiness_score pitch_mean energy speech_rate pitch_variance =
    (let score = 0;
         score = (if lit (6 / 10) < energy \<and> energy < lit (9 / 10)
                  then fadd score (lit (3 / 10)) else score);
         score = (if 160 < pitch_mean \<and> pitch_mean < 200
                  then fadd score (lit (2 / 10)) else score);
         score = (if 150 < speech_rate \<and> speech_rate < 180
                  then fadd score (lit (2 / 10)) else score);
         score = (if 40 < pitch_variance \<and> pitch_variance < 70
                  then fadd score (lit (3 / 10)) else score)
     in py_min score 1)"

definition calculate_calm_score :: "rat \<Rightarrow> rat \<Rightarrow> rat \<Rightarrow> rat \<Rightarrow> rat" where
  "calculate_calm_score pitch_variance speech_rate energy pause_duration =
    (let score = 0;
         score = (if 25 < pitch_variance \<and> pitch_variance < 55
                  then fadd score (lit (3 / 10)) else score);
         score = (if 140 < speech_rate \<and> speech_rate < 170
                  then fadd score (lit (3 / 10)) else score);
         score = (if lit (4 / 10) < energy \<and> energy < lit (7 / 10)
                  then fadd score (lit (2 / 10)) else score);
         score = (if lit (3 / 10) < pause_duration \<and> pause_duration < lit (8 / 10)
                  then fadd score (lit (2 / 10)) else score)
     in py_min score 1)"

text \<open>The score dict, in the order its keys are inserted.\<close>

definition calculate_emotion_scores ::
  "rat \<Rightarrow> rat \<Rightarrow> rat \<Rightarrow> rat \<Rightarrow> rat \<Rightarrow> (EmotionState \<times> rat) list" where
  "calculate_emotion_scores pitch_mean pitch_variance speech_rate energy pause_duration =
    [(ANXIOUS, calculate_anxiety_score pitch_mean pitch_variance speech_rate energy),
     (DEPRESSED, calculate_depression_score pitch_mean energy pause_duration speech_rate),
     (STRESSED, calculate_stress_score speech_rate pitch_variance energy),
     (ANGRY, calculate_anger_score pitch_mean energy speech_rate),
     (HAPPY, calculate_happiness_score pitch_mean energy speech_rate pitch_variance),
     (CALM, calculate_calm_score pitch_variance speech_rate energy pause_duration)]"

definition assess_voice_risk ::
  "(EmotionState \<times> rat) list \<Rightarrow> voice_features \<Rightarrow> py_error + RiskLevel" where
  "assess_voice_risk emotion_scores vf =
    (let energy = dict_get vf ''energy'' (lit (5 / 10));
         speech_rate = dict_get vf ''speech_rate'' 150;
         pause_duration = dict_get vf ''avg_pause_duration'' (lit (5 / 10))
     in case lookup emotion_scores DEPRESSED of
          Inl e \<Rightarrow> Inl e
        | Inr dep \<Rightarrow>
           (if lit (8 / 10) < dep \<and> energy < lit (2 / 10) \<and> speech_rate < 100
            then Inr CRISIS
            else (case lookup emotion_scores ANXIOUS of
                Inl e \<Rightarrow> Inl e
              | Inr anx \<Rightarrow>
                 (if lit (8 / 10) < anx \<and> 2 < pause_duration then Inr HIGH
                  else if 2 \<le> length (filter (\<lambda>kv. lit (7 / 10) < snd kv) emotion_scores)
                  then Inr HIGH
                  else (case lookup emotion_scores STRESSED of
                      Inl e \<Rightarrow> Inl e
                    | Inr str \<Rightarrow>
                       (if lit (6 / 10) < py_max (py_max dep anx) str then Inr MEDIUM
                        else Inr LOW))))))"

definition generate_voice_indicators :: "voice_features \<Rightarrow> string list" where
  "generate_voice_indicators vf =
    (let speech_rate = dict_get vf ''speech_rate'' 150;
         energy = dict_get vf ''energy'' (lit (5 / 10));
         pitch_variance = dict_get vf ''pitch_variance'' 50;
         pause_duration = dict_get vf ''avg_pause_duration'' (lit (5 / 10))
     in (if 190 < speech_rate then [''Rapid speech pattern'']
         else if speech_rate < 120 then [''Slow speech pattern''] else [])
      @ (if energy < lit (3 / 10) then [''Low vocal energy'']
         else if lit (8 / 10) < energy then [''High vocal energy''] else [])
      @ (if 75 < pitch_variance then [''Variable pitch patterns'']
         else if pitch_variance < 25 then [''Monotone speech''] else [])
      @ (if lit (15 / 10) < pause_duration then [''Extended pauses'']
         else if pause_duration < lit (2 / 10) then [''Minimal pauses''] else []))"

definition calculate_intensity :: "rat \<Rightarrow> string" where
  "calculate_intensity c =
    (if lit (7 / 10) < c then ''high'' else if lit (4 / 10) < c then ''medium'' else ''low'')"

fun voice_technique_table :: "EmotionState \<Rightarrow> string" where
  "voice_technique_table ANXIOUS = ''breathing_exercise''"
| "voice_technique_table DEPRESSED = ''behavioral_activation''"
| "voice_technique_table STRESSED = ''grounding_technique''"
| "voice_technique_table ANGRY = ''emotion_regulation''"
| "voice_technique_table HAPPY = ''positive_reinforcement''"
| "voice_technique_table CALM = ''maintenance_check''"
| "voice_technique_table _ = ''general_support''"

definition suggest_voice_technique :: "EmotionState \<Rightarrow> RiskLevel \<Rightarrow> string" where
  "suggest_voice_technique emotion risk =
    (if risk = CRISIS then ''crisis_intervention''
     else if risk = HIGH then ''safety_planning''
     else voice_technique_table emotion)"

definition identify_voice_patterns :: "voice_features \<Rightarrow> string list" where
  "identify_voice_patterns vf =
    (let energy = dict_get vf ''energy'' (lit (5 / 10));
         speech_rate = dict_get vf ''speech_rate'' 150;
         pitch_variance = dict_get vf ''pitch_variance'' 50
     in (if energy < lit (3 / 10) \<and> speech_rate < 120
         then [''potential_depression_indicators''] else [])
      @ (if 180 < speech_rate \<and> 70 < pitch_variance
         then [''potential_anxiety_indicators''] else [])
      @ (if (200 < speech_rate \<or> speech_rate < 100) \<and> lit (6 / 10) < energy
         then [''potential_stress_indicators''] else []))"

definition analyze_voice_features :: "voice_features \<Rightarrow> py_error + EmotionAnalysis" where
  "analyze_voice_features vf =
    (let pitch_mean = dict_get vf ''pitch_mean'' 150;
         pitch_variance = dict_get vf ''pitch_variance'' 50;
         speech_rate = dict_get vf ''speech_rate'' 150;
         energy = dict_get vf ''energy'' (lit (5 / 10));
         pause_duration = dict_get vf ''avg_pause_duration'' (lit (5 / 10));
         emotion_scores =
           calculate_emotion_scores pitch_mean pitch_variance speech_rate energy pause_duration
     in case max_key emotion_scores of
          Inl e \<Rightarrow> Inl e
        | Inr (primary, conf) \<Rightarrow>
           (case assess_voice_risk emotion_scores vf of
              Inl e \<Rightarrow> Inl e
            | Inr risk \<Rightarrow>
                Inr \<lparr> primary_emotion = primary,
                      confidence = conf,
                      risk_level = risk,
                      emotional_indicators = generate_voice_indicators vf,
                      suggested_technique = suggest_voice_technique primary risk,
                      intensity = calculate_intensity conf,
                      patterns = identify_voice_patterns vf \<rparr>))"

section \<open>TextEmotionAnalyzer\<close>

definition crisis_keywords :: "string list" where
  "crisis_keywords =
    [''suicide'', ''kill myself'', ''end it all'', ''better off dead'',
     ''self harm'', ''hurt myself'', ''cutting'', ''overdose'',
     ''hopeless'', ''worthless'', ''no point'', ''can't go on'',
     ''want to die'', ''end my life'', ''not worth living'']"

definition emotion_keywords :: "(EmotionState \<times> string list) list" where
  "emotion_keywords =
    [(ANXIOUS, [''worried'', ''nervous'', ''scared'', ''panic'', ''anxious'', ''afraid'']),
     (DEPRESSED, [''sad'', ''empty'', ''hopeless'', ''worthless'', ''depressed'', ''down'']),
     (STRESSED, [''overwhelmed'', ''pressure'', ''stressed'', ''burden'', ''exhausted'']),
     (ANGRY, [''angry'', ''furious'', ''mad'', ''frustrated'', ''rage'', ''irritated'']),
     (HAPPY, [''happy'', ''joy'', ''excited'', ''good'', ''great'', ''wonderful''])]"

text \<open>\<^verbatim>\<open>any(keyword in text for keyword in self.crisis_keywords)\<close>.\<close>

fun any_in :: "string list \<Rightarrow> string \<Rightarrow> bool" where
  "any_in [] text = False"
| "any_in (k # ks) text = (contains text k \<or> any_in ks text)"

definition detect_crisis_keywords :: "string \<Rightarrow> bool" where
  "detect_crisis_keywords text = any_in crisis_keywords text"

definition string_to_emotion :: "string \<Rightarrow> EmotionState" where
  "string_to_emotion emotion_str =
    (let s = lower emotion_str in
     if s = ''anxious'' then ANXIOUS
     else if s = ''depressed'' then DEPRESSED
     else if s = ''stressed'' then STRESSED
     else if s = ''angry'' then ANGRY
     else if s = ''happy'' then HAPPY
     else if s = ''calm'' then CALM
     else if s = ''confused'' then CONFUSED
     else if s = ''excited'' then EXCITED
     else CALM)"

definition string_to_risk :: "string \<Rightarrow> RiskLevel" where
  "string_to_risk risk_str =
    (let s = lower risk_str in
     if s = ''low'' then LOW
     else if s = ''medium'' then MEDIUM
     else if s = ''high'' then HIGH
     else if s = ''crisis'' then CRISIS
     else LOW)"

text \<open>
  The outcome of \<^verbatim>\<open>await self.gemma_client.analyze_emotion_from_text(text, context)\<close>
  together with the reads of the \<^verbatim>\<open>try\<close> block. \<open>Raised\<close> stands for every run in which
  the block raises (the call fails, the payload is not a JSON object, a field that is
  used as a string or a list is of another type): all of them reach the same
  \<^verbatim>\<open>except Exception\<close> handler. \<open>Returned\<close> carries a JSON object; a field is \<open>None\<close>
  when the key is absent, which is where \<^verbatim>\<open>.get(key, default)\<close> supplies its default.
\<close>

record gemma_analysis =
  g_primary_emotion :: "string option"
  g_confidence :: "rat option"
  g_intensity :: "string option"
  g_risk_level :: "string option"
  g_crisis_indicators :: "string list option"
  g_positive_indicators :: "string list option"
  g_emotional_patterns :: "string list option"
  g_suggested_approach :: "string option"

datatype gemma_outcome = Raised | Returned gemma_analysis

definition get_or :: "'a option \<Rightarrow> 'a \<Rightarrow> 'a" where
  "get_or field dflt = (case field of None \<Rightarrow> dflt | Some v \<Rightarrow> v)"

fun text_technique_table :: "EmotionState \<Rightarrow> string" where
  "text_technique_table ANXIOUS = ''breathing_exercise''"
| "text_technique_table DEPRESSED = ''behavioral_activation''"
| "text_technique_table STRESSED = ''grounding_technique''"
| "text_technique_table ANGRY = ''emotion_regulation''"
| "text_technique_table CONFUSED = ''clarification_questions''"
| "text_technique_table _ = ''validation''"

definition suggest_text_technique ::
  "EmotionState \<Rightarrow> RiskLevel \<Rightarrow> gemma_analysis \<Rightarrow> string" where
  "suggest_text_technique emotion risk analysis =
    (if risk = CRISIS then ''crisis_intervention''
     else if risk = HIGH then ''safety_planning''
     else (let suggested_approach = get_or (g_suggested_approach analysis) [] in
       if suggested_approach \<in> set [''cbt'', ''behavioral_activation'', ''validation'',
                                     ''crisis_intervention'']
       then suggested_approach
       else text_technique_table emotion))"

text \<open>
  The keyword fallback. Every keyword list of the table is non-empty, so the division
  by its length never raises. The score dict has one entry per entry of the table; the
  \<^verbatim>\<open>else\<close> branch of \<^verbatim>\<open>if emotion_scores:\<close> is taken only by an empty dict.
\<close>

definition keyword_scores :: "string \<Rightarrow> (EmotionState \<times> rat) list" where
  "keyword_scores text_lower =
    map (\<lambda>(emotion, keywords).
           (emotion, fdiv (of_nat (count_matches keywords text_lower))
                          (of_nat (length keywords))))
        emotion_keywords"

definition fallback_text_analysis :: "string \<Rightarrow> bool \<Rightarrow> EmotionAnalysis" where
  "fallback_text_analysis text crisis_detected =
    (let emotion_scores = keyword_scores (lower text);
         (primary, conf) = (case emotion_scores of
                              kv # kvs \<Rightarrow> max_from kv kvs
                            | [] \<Rightarrow> (CALM, lit (3 / 10)));
         risk = (if crisis_detected then CRISIS else LOW)
     in \<lparr> primary_emotion = primary,
          confidence = conf,
          risk_level = risk,
          emotional_indicators = [''Keyword-based analysis''],
          suggested_technique = ''validation'',
          intensity = ''medium'',
          patterns = [''fallback_analysis''] \<rparr>)"

definition analyze_text_emotion :: "string \<Rightarrow> gemma_outcome \<Rightarrow> EmotionAnalysis" where
  "analyze_text_emotion text outcome =
    (let crisis_detected = detect_crisis_keywords (lower text) in
     case outcome of
       Raised \<Rightarrow> fallback_text_analysis text crisis_detected
     | Returned gemma \<Rightarrow>
        (let primary = string_to_emotion (get_or (g_primary_emotion gemma) ''calm'');
             conf = get_or (g_confidence gemma) (lit (5 / 10));
             risk = (if crisis_detected then CRISIS
                     else string_to_risk (get_or (g_risk_level gemma) ''low''));
             crisis_indicators = get_or (g_crisis_indicators gemma) [];
             positive_indicators = get_or (g_positive_indicators gemma) [];
             pats = get_or (g_emotional_patterns gemma) [];
             indicators = crisis_indicators @ positive_indicators;
             indicators = (if crisis_detected \<and> crisis_indicators = []
                           then indicators @ [''Crisis keywords detected'']
                           else indicators);
             technique = suggest_text_technique primary risk gemma
         in \<lparr> primary_emotion = primary,
              confidence = conf,
              risk_level = risk,
              emotional_indicators = indicators,
              suggested_technique = technique,
              intensity = get_or (g_intensity gemma) ''medium'',
              patterns = pats \<rparr>))"

section \<open>MultimodalEmotionFusion\<close>

definition voice_weight :: rat where
  "voice_weight = lit (4 / 10)"

definition text_weight :: rat where
  "text_weight = lit (6 / 10)"

definition min_confidence :: rat where
  "min_confidence = lit (3 / 10)"

definition agreement_bonus :: rat where
  "agreement_bonus = lit (2 / 10)"

fun risk_priorities :: "RiskLevel \<Rightarrow> nat" where
  "risk_priorities LOW = 0"
| "risk_priorities MEDIUM = 1"
| "risk_priorities HIGH = 2"
| "risk_priorities CRISIS = 3"

definition choose_combined_technique ::
  "EmotionState \<Rightarrow> RiskLevel \<Rightarrow> EmotionAnalysis \<Rightarrow> EmotionAnalysis \<Rightarrow> string" where
  "choose_combined_technique emotion risk voice_analysis text_analysis =
    (if risk = CRISIS then ''crisis_intervention''
     else if risk = HIGH then ''safety_planning''
     else if suggested_technique voice_analysis = suggested_technique text_analysis
     then suggested_technique voice_analysis
     else suggested_technique text_analysis)"

definition intensity_values :: "string \<Rightarrow> rat" where
  "intensity_values s =
    (if s = ''low'' then 1 else if s = ''medium'' then 2 else if s = ''high'' then 3 else 2)"

definition determine_combined_intensity :: "string \<Rightarrow> string \<Rightarrow> rat \<Rightarrow> string" where
  "determine_combined_intensity voice_intensity text_intensity conf =
    (let voice_val = intensity_values voice_intensity;
         text_val = intensity_values text_intensity;
         combined_val = fadd (fmul voice_val voice_weight) (fmul text_val text_weight);
         combined_val = (if lit (8 / 10) < conf then fmul combined_val (lit (11 / 10))
                         else if conf < lit (4 / 10) then fmul combined_val (lit (9 / 10))
                         else combined_val)
     in if lit (25 / 10) < combined_val then ''high''
        else if lit (15 / 10) < combined_val then ''medium''
        else ''low'')"

text \<open>
  \<^verbatim>\<open>list(set(a + b))\<close> keeps one copy of each pattern, in an order Python does not
  specify; the model keeps the order of \<open>remdups\<close>, and nothing below depends on it.
\<close>

definition fuse_emotions :: "EmotionAnalysis option \<Rightarrow> EmotionAnalysis \<Rightarrow> EmotionAnalysis" where
  "fuse_emotions voice text_analysis =
    (case voice of
       None \<Rightarrow> text_analysis
     | Some voice_analysis \<Rightarrow>
        (let combined_confidence =
               fadd (fmul (confidence voice_analysis) voice_weight)
                    (fmul (confidence text_analysis) text_weight);
             emotions_agree =
               (primary_emotion voice_analysis = primary_emotion text_analysis);
             primary = (if emotions_agree then primary_emotion voice_analysis
                        else primary_emotion text_analysis);
             combined_confidence =
               (if emotions_agree then py_min (fadd combined_confidence agreement_bonus) 1
                else fmul combined_confidence (lit (8 / 10)));
             risk = (if risk_priorities (risk_level voice_analysis)
                          < risk_priorities (risk_level text_analysis)
                     then risk_level text_analysis else risk_level voice_analysis);
             combined_indicators =
               emotional_indicators voice_analysis @ emotional_indicators text_analysis;
             combined_patterns = remdups (patterns voice_analysis @ patterns text_analysis);
             technique = choose_combined_technique primary risk voice_analysis text_analysis;
             intens = determine_combined_intensity (intensity voice_analysis)
                        (intensity text_analysis) combined_confidence
         in \<lparr> primary_emotion = primary,
              confidence = py_max combined_confidence min_confidence,
              risk_level = risk,
              emotional_indicators = combined_indicators,
              suggested_technique = technique,
              intensity = intens,
              patterns = combined_patterns \<rparr>))"

section \<open>ConversationManager (conversation\_manager.py)\<close>

text \<open>
  One entry of \<^verbatim>\<open>conversation_history\<close>. The timestamp is the reading of the clock
  (the source stores its \<^verbatim>\<open>isoformat()\<close>).
\<close>

record interaction =
  i_timestamp :: int
  i_user :: string
  i_assistant :: string
  i_emotion :: string
  i_risk_level :: string
  i_confidence :: rat

record ConversationContext =
  user_id :: string
  session_id :: string
  conversation_history :: "interaction list"
  emotion_history :: "EmotionAnalysis list"
  risk_flags :: "string list"
  last_interaction :: int
  session_start :: int
  therapeutic_goals :: "string list"
  check_in_schedule :: "(string \<times> string) list"

text \<open>
  A context is a mutable object that the manager's dict and its callers share. The
  objects allocated so far are the list \<open>objects\<close>, a reference is an index into it,
  and \<open>active_sessions\<close> maps a session key to a reference.
\<close>

record ConversationManager =
  max_history :: int
  session_timeout :: int
  active_sessions :: "string \<rightharpoonup> nat"
  objects :: "ConversationContext list"

text \<open>\<^verbatim>\<open>ConversationManager(max_history, session_timeout)\<close>.\<close>

definition new_manager :: "int \<Rightarrow> int \<Rightarrow> ConversationManager" where
  "new_manager mh st =
    \<lparr> max_history = mh, session_timeout = st, active_sessions = Map.empty, objects = [] \<rparr>"

text \<open>
  \<^verbatim>\<open>timedelta(seconds=n)\<close> for an \<^verbatim>\<open>int\<close>, in microseconds. The constructor splits \<open>n\<close> into
  days and seconds with \<^verbatim>\<open>divmod(n, 86400)\<close> and raises \<^verbatim>\<open>OverflowError\<close> when the number
  of days exceeds 999999999 in magnitude.
\<close>

definition timedelta_seconds :: "int \<Rightarrow> py_error + int" where
  "timedelta_seconds n =
    (if 999999999 < \<bar>n div 86400\<bar> then Inl OverflowError else Inr (n * 1000000))"

text \<open>The constant \<^verbatim>\<open>timedelta(hours=2)\<close>, in microseconds.\<close>

definition two_hours :: int where
  "two_hours = 2 * 3600 * 1000000"

definition context_key :: "string \<Rightarrow> string \<Rightarrow> string" where
  "context_key uid sid = uid @ '':'' @ sid"

definition fresh_context :: "string \<Rightarrow> string \<Rightarrow> int \<Rightarrow> int \<Rightarrow> ConversationContext" where
  "fresh_context uid sid t_last t_start =
    \<lparr> user_id = uid, session_id = sid, conversation_history = [], emotion_history = [],
      risk_flags = [], last_interaction = t_last, session_start = t_start,
      therapeutic_goals = [], check_in_schedule = [] \<rparr>"

text \<open>
  \<^verbatim>\<open>_create_new_context\<close> reads the clock twice (\<open>t_last\<close>, \<open>t_start\<close>), allocates the
  context and stores it under the key. It returns the reference and the new state.
\<close>

definition create_new_context ::
  "ConversationManager \<Rightarrow> int \<Rightarrow> int \<Rightarrow> string \<Rightarrow> string \<Rightarrow> nat \<times> ConversationManager" where
  "create_new_context m t_last t_start uid sid =
    (let r = length (objects m) in
     (r, m\<lparr> objects := objects m @ [fresh_context uid sid t_last t_start],
            active_sessions := (active_sessions m)(context_key uid sid \<mapsto> r) \<rparr>))"

text \<open>
  \<^verbatim>\<open>get_or_create_context\<close>. \<open>uuid\<close> is the value \<^verbatim>\<open>str(uuid.uuid4())\<close> would give,
  \<open>t_check\<close> the clock of the expiry test. \<^verbatim>\<open>if not session_id\<close> holds for \<^verbatim>\<open>None\<close>
  and for the empty string. The expiry test builds \<^verbatim>\<open>timedelta(seconds=self.session_timeout)\<close>
  once the key is found, and the call raises when that constructor does.
\<close>

definition get_or_create_context ::
  "ConversationManager \<Rightarrow> string \<Rightarrow> int \<Rightarrow> int \<Rightarrow> int \<Rightarrow> string \<Rightarrow> string option
     \<Rightarrow> py_error + nat \<times> ConversationManager" where
  "get_or_create_context m uuid t_check t_last t_start uid session =
    (let sid = (case session of None \<Rightarrow> uuid | Some s \<Rightarrow> if s = [] then uuid else s);
         key = context_key uid sid
     in case active_sessions m key of
          Some r \<Rightarrow>
            (case timedelta_seconds (session_timeout m) of
               Inl e \<Rightarrow> Inl e
             | Inr timeout \<Rightarrow>
                 if timeout < t_check - last_interaction (objects m ! r)
                 then Inr (create_new_context m t_last t_start uid sid)
                 else Inr (r, m))
        | None \<Rightarrow> Inr (create_new_context m t_last t_start uid sid))"



fun risk_values :: "RiskLevel \<Rightarrow> nat" where
  "risk_values LOW = 1"
| "risk_values MEDIUM = 2"
| "risk_values HIGH = 3"
| "risk_values CRISIS = 4"

text \<open>\<^verbatim>\<open>all(v[i] <= v[i+1] for i in range(len(v) - 1))\<close>.\<close>

fun all_adjacent_le :: "nat list \<Rightarrow> bool" where
  "all_adjacent_le (x # y # zs) = (x \<le> y \<and> all_adjacent_le (y # zs))"
| "all_adjacent_le _ = True"

definition update_risk_assessment ::
  "ConversationContext \<Rightarrow> EmotionAnalysis \<Rightarrow> ConversationContext" where
  "update_risk_assessment context emotion_analysis =
    (let flags = filter (\<lambda>flag. \<not> startswith flag ''session_'') (risk_flags context);
         flags = (if risk_level emotion_analysis = CRISIS
                  then flags @ [''session_crisis_detected''] else flags);
         eh = emotion_history context;
         recent_emotions = (if 5 \<le> length eh then slice_from (- 5) eh else eh);
         negative_count =
           length (filter (\<lambda>analysis. primary_emotion analysis \<in> set [DEPRESSED, ANXIOUS, STRESSED])
                     recent_emotions);
         flags = (if 4 \<le> negative_count
                  then flags @ [''session_persistent_negative_mood''] else flags);
         flags = (if 3 \<le> length eh
                     \<and> all_adjacent_le (map (\<lambda>analysis. risk_values (risk_level analysis))
                                            (slice_from (- 3) eh))
                  then flags @ [''session_escalating_risk''] else flags)
     in context\<lparr> risk_flags := flags \<rparr>)"

fun goal_mapping :: "EmotionState \<Rightarrow> string option" where
  "goal_mapping ANXIOUS = Some ''anxiety_management''"
| "goal_mapping DEPRESSED = Some ''mood_improvement''"
| "goal_mapping STRESSED = Some ''stress_reduction''"
| "goal_mapping ANGRY = Some ''anger_management''"
| "goal_mapping _ = None"

definition update_therapeutic_goals ::
  "ConversationContext \<Rightarrow> EmotionAnalysis \<Rightarrow> ConversationContext" where
  "update_therapeutic_goals context emotion_analysis =
    (let goals = therapeutic_goals context;
         goals = (case goal_mapping (primary_emotion emotion_analysis) of
                    None \<Rightarrow> goals
                  | Some goal \<Rightarrow> if goal \<in> set goals then goals else goals @ [goal]);
         goals = (if 3 < length goals then slice_from (- 3) goals else goals)
     in context\<lparr> therapeutic_goals := goals \<rparr>)"

text \<open>The dict that \<^verbatim>\<open>add_interaction\<close> appends to the conversation history.\<close>

definition make_interaction :: "int \<Rightarrow> string \<Rightarrow> string \<Rightarrow> EmotionAnalysis \<Rightarrow> interaction" where
  "make_interaction t_stamp user_input ai_response emotion_analysis =
    \<lparr> i_timestamp = t_stamp, i_user = user_input, i_assistant = ai_response,
      i_emotion = emotion_value (primary_emotion emotion_analysis),
      i_risk_level = risk_value (risk_level emotion_analysis),
      i_confidence = confidence emotion_analysis \<rparr>"

text \<open>
  \<^verbatim>\<open>add_interaction\<close> as a function of the manager's \<^verbatim>\<open>max_history\<close> and of the state of
  the context object it mutates; \<open>t_stamp\<close> and \<open>t_last\<close> are its two clock readings.
\<close>

definition add_interaction ::
  "int \<Rightarrow> ConversationContext \<Rightarrow> int \<Rightarrow> int \<Rightarrow> string \<Rightarrow> string \<Rightarrow> EmotionAnalysis
     \<Rightarrow> ConversationContext" where
  "add_interaction mh context t_stamp t_last user_input ai_response emotion_analysis =
    (let entry = make_interaction t_stamp user_input ai_response emotion_analysis;
         context = context\<lparr> conversation_history := conversation_history context @ [entry],
                            emotion_history := emotion_history context @ [emotion_analysis],
                            last_interaction := t_last \<rparr>;
         context = (if mh < int (length (conversation_history context))
                    then context\<lparr> conversation_history :=
                                     slice_from (- mh) (conversation_history context),
                                   emotion_history :=
                                     slice_from (- mh) (emotion_history context) \<rparr>
                    else context);
         context = update_risk_assessment context emotion_analysis
     in update_therapeutic_goals context emotion_analysis)"

text \<open>The same call on the shared object behind a reference.\<close>

definition add_interaction_at ::
  "ConversationManager \<Rightarrow> nat \<Rightarrow> int \<Rightarrow> int \<Rightarrow> string \<Rightarrow> string \<Rightarrow> EmotionAnalysis
     \<Rightarrow> ConversationManager" where
  "add_interaction_at m r t_stamp t_last user_input ai_response emotion_analysis =
    m\<lparr> objects := (objects m)[r := add_interaction (max_history m) (objects m ! r)
                                     t_stamp t_last user_input ai_response emotion_analysis] \<rparr>"

text \<open>A sequence of calls on one context, each with its own clock readings and arguments.\<close>

type_synonym call = "int \<times> int \<times> string \<times> string \<times> EmotionAnalysis"

fun add_interactions :: "int \<Rightarrow> ConversationContext \<Rightarrow> call list \<Rightarrow> ConversationContext" where
  "add_interactions mh context [] = context"
| "add_interactions mh context ((t_stamp, t_last, u, a, e) # calls) =
     add_interactions mh (add_interaction mh context t_stamp t_last u a e) calls"

definition should_suggest_professional_help :: "int \<Rightarrow> ConversationContext \<Rightarrow> bool" where
  "should_suggest_professional_help now context =
    (if ''session_crisis_detected'' \<in> set (risk_flags context) then True
     else if ''session_persistent_negative_mood'' \<in> set (risk_flags context)
             \<and> ''session_escalating_risk'' \<in> set (risk_flags context) then True
     else if two_hours < now - session_start context
             \<and> 15 < length (conversation_history context) then True
     else False)"

section \<open>CrisisDetector (crisis\_detection.py)\<close>








text \<open>One entry of \<^verbatim>\<open>detected_crises\<close>.\<close>

record detected_crisis =
  c_type :: string
  c_score :: rat
  c_urgency :: string





record crisis_report =
  crisis_detected :: bool
  crisis_types :: "detected_crisis list"
  highest_urgency :: "string option"
  immediate_action_needed :: bool
  safety_planning_required :: bool


section \<open>The specification's wording, and example inputs\<close>

text \<open>
  The specification orders the risk levels \<open>low < medium < high < crisis\<close>; the
  maximum of two levels in that order, written out case by case.
\<close>

fun spec_risk_max :: "RiskLevel \<Rightarrow> RiskLevel \<Rightarrow> RiskLevel" where
  "spec_risk_max CRISIS b = CRISIS"
| "spec_risk_max a CRISIS = CRISIS"
| "spec_risk_max HIGH b = HIGH"
| "spec_risk_max a HIGH = HIGH"
| "spec_risk_max MEDIUM b = MEDIUM"
| "spec_risk_max a MEDIUM = MEDIUM"
| "spec_risk_max LOW LOW = LOW"

text \<open>The last \<open>n\<close> elements of a list (all of it when it is shorter).\<close>

definition last_n :: "nat \<Rightarrow> 'a list \<Rightarrow> 'a list" where
  "last_n n xs = drop (length xs - n) xs"

text \<open>The history entry and the analysis that one call of a sequence contributes.\<close>

fun call_entry :: "call \<Rightarrow> interaction" where
  "call_entry (t_stamp, t_last, u, a, e) = make_interaction t_stamp u a e"

fun call_analysis :: "call \<Rightarrow> EmotionAnalysis" where
  "call_analysis (t_stamp, t_last, u, a, e) = e"

text \<open>
  The voice features of the specification's scenario; \<^verbatim>\<open>avg_pause_duration\<close> is absent.
\<close>

definition scenario_features :: voice_features where
  "scenario_features =
    [''pitch_mean'' \<mapsto> 110, ''pitch_variance'' \<mapsto> 15, ''speech_rate'' \<mapsto> 90,
     ''energy'' \<mapsto> lit (1 / 10)]"

text \<open>An analysis with a given emotion, confidence and risk, for examples.\<close>

definition sample_analysis :: "EmotionState \<Rightarrow> rat \<Rightarrow> RiskLevel \<Rightarrow> EmotionAnalysis" where
  "sample_analysis e c r =
    \<lparr> primary_emotion = e, confidence = c, risk_level = r, emotional_indicators = [],
      suggested_technique = ''validation'', intensity = ''medium'', patterns = [] \<rparr>"

text \<open>A payload of the generative model that reports no crisis indicator.\<close>

definition sample_payload :: gemma_analysis where
  "sample_payload =
    \<lparr> g_primary_emotion = Some ''depressed'', g_confidence = Some (lit (85 / 100)),
      g_intensity = Some ''high'', g_risk_level = Some ''low'',
      g_crisis_indicators = Some [], g_positive_indicators = Some [''reaching out''],
      g_emotional_patterns = Some [''hopelessness''], g_suggested_approach = Some ''cbt'' \<rparr>"

text \<open>Five calls of \<^verbatim>\<open>add_interaction\<close>, for the eviction example.\<close>

definition five_calls :: "call list" where
  "five_calls =
    [(1, 1, ''m1'', ''r1'', sample_analysis ANXIOUS 1 LOW),
     (2, 2, ''m2'', ''r2'', sample_analysis DEPRESSED 1 LOW),
     (3, 3, ''m3'', ''r3'', sample_analysis STRESSED 1 MEDIUM),
     (4, 4, ''m4'', ''r4'', sample_analysis ANXIOUS 1 HIGH),
     (5, 5, ''m5'', ''r5'', sample_analysis HAPPY 1 LOW)]"





definition zero_m1 :: ConversationManager where
  "zero_m1 = snd (create_new_context (new_manager 0 3600) 0 0 ''user'' ''session'')"



chapter \<open>Verification\<close>

section \<open>Rounding to a double is monotone around representable values\<close>

text \<open>
  Rounding to an integer never crosses an integer, the binade of a positive rational
  brackets it between two powers of two, and so rounding to a double never crosses a
  value that is itself a double (a fixed point of \<open>to_double\<close>).
\<close>

lemma round_even_le: "q \<le> of_int k \<Longrightarrow> round_even q \<le> k"
proof -
  assume h: "q \<le> of_int k"
  have f: "\<lfloor>q\<rfloor> \<le> k" using h by (simp add: floor_le_iff) 
  show ?thesis
  proof (cases "\<lfloor>q\<rfloor> = k")
    case True
    then have "q = of_int k" using h by (metis floor_le_iff le_floor_iff order_antisym order_refl of_int_floor_le)
    then show ?thesis by (simp add: round_even_def)
  next
    case False
    then have "\<lfloor>q\<rfloor> + 1 \<le> k" using f by simp
    then show ?thesis by (simp add: round_even_def Let_def)
  qed
qed

lemma round_even_ge: "of_int k \<le> q \<Longrightarrow> k \<le> round_even q"
proof -
  assume h: "of_int k \<le> q"
  then have "k \<le> \<lfloor>q\<rfloor>" by (simp add: le_floor_iff)
  then show ?thesis by (simp add: round_even_def Let_def)
qed

lemma ilog2_bounds:
  assumes "0 < x"
  shows "2 powi ilog2 x \<le> x \<and> x < 2 powi (ilog2 x + 1)"
proof (cases "1 \<le> x")
  case True
  let ?n = "\<lfloor>x\<rfloor>"
  have n: "0 < ?n" using True by simp
  have b: "2 ^ nat (bitlen ?n - 1) \<le> ?n \<and> ?n < 2 ^ nat (bitlen ?n)"
    using bitlen_bounds[OF n] .
  have b1: "1 \<le> bitlen ?n" using n by (metis bitlen_eq_zero_iff bitlen_nonneg not_le add_0 zless_imp_add1_zle order_le_less)
  have e: "ilog2 x = bitlen ?n - 1" using True by (simp add: ilog2_def)
  have "(2::rat) powi (bitlen ?n - 1) = 2 ^ nat (bitlen ?n - 1)"
    using b1 by (simp add: power_int_def)
  also have "\<dots> = of_int (2 ^ nat (bitlen ?n - 1))" by simp
  also have "\<dots> \<le> of_int ?n" using b by (simp only: of_int_le_iff)
  also have "\<dots> \<le> x" by simp
  finally have lo: "2 powi ilog2 x \<le> x" using e by simp
  have "x < of_int (?n + 1)" by linarith
  also have "\<dots> \<le> of_int (2 ^ nat (bitlen ?n))" using b by (simp only: of_int_le_iff) simp
  also have "\<dots> = (2::rat) powi (bitlen ?n)" using b1 by (simp add: power_int_def)
  finally have "x < 2 powi (ilog2 x + 1)" using e by simp
  with lo show ?thesis by simp
next
  case False
  then have x1: "x < 1" by simp
  let ?n = "\<lceil>1 / x\<rceil> - 1"
  have "1 < 1 / x" using assms x1 by simp
  then have n: "0 < ?n" by linarith
  have b: "2 ^ nat (bitlen ?n - 1) \<le> ?n \<and> ?n < 2 ^ nat (bitlen ?n)"
    using bitlen_bounds[OF n] .
  have b1: "1 \<le> bitlen ?n" using n by (metis bitlen_eq_zero_iff bitlen_nonneg not_le add_0 zless_imp_add1_zle order_le_less)
  have e: "ilog2 x = - bitlen ?n" using False by (simp add: ilog2_def)
  have up: "1 / x \<le> of_int \<lceil>1 / x\<rceil>" by (rule le_of_int_ceiling)
  have "\<lceil>1 / x\<rceil> \<le> 2 ^ nat (bitlen ?n)" using b by linarith
  then have "(of_int \<lceil>1 / x\<rceil> :: rat) \<le> of_int (2 ^ nat (bitlen ?n))"
    by (simp only: of_int_le_iff)
  with up have "1 / x \<le> of_int (2 ^ nat (bitlen ?n))" by (rule order_trans)
  then have "1 / x \<le> 2 ^ nat (bitlen ?n)" by simp
  then have "1 \<le> 2 ^ nat (bitlen ?n) * x" using assms by (simp add: field_simps)
  then have "1 / 2 ^ nat (bitlen ?n) \<le> x" by (simp add: field_simps)
  moreover have "(2::rat) powi (- bitlen ?n) = 1 / 2 ^ nat (bitlen ?n)"
    using b1 by (simp add: power_int_def field_simps)
  ultimately have lo: "2 powi ilog2 x \<le> x" using e by simp
  have "of_int ?n < 1 / x" by linarith
  moreover have "(of_int (2 ^ nat (bitlen ?n - 1)) :: rat) \<le> of_int ?n" using b by (simp only: of_int_le_iff)
  ultimately have "2 ^ nat (bitlen ?n - 1) < 1 / x" by simp
  then have "2 ^ nat (bitlen ?n - 1) * x < 1" using assms by (simp add: field_simps)
  then have "x < 1 / 2 ^ nat (bitlen ?n - 1)" by (simp add: field_simps)
  moreover have "(2::rat) powi (- bitlen ?n + 1) = 1 / 2 ^ nat (bitlen ?n - 1)"
  proof (cases "bitlen ?n = 1")
    case True then show ?thesis by simp
  next
    case False
    then have "- bitlen ?n + 1 < 0" using b1 by simp
    then show ?thesis using b1 by (simp add: power_int_def field_simps nat_diff_distrib)
  qed
  ultimately have "x < 2 powi (ilog2 x + 1)" using e by simp
  with lo show ?thesis by simp
qed

lemma ilog2_mono:
  assumes "0 < x" "x \<le> y"
  shows "ilog2 x \<le> ilog2 y"
proof (rule ccontr)
  assume "\<not> ilog2 x \<le> ilog2 y"
  then have "ilog2 y + 1 \<le> ilog2 x" by simp
  then have "(2::rat) powi (ilog2 y + 1) \<le> 2 powi ilog2 x"
    by (rule power_int_increasing) simp
  also have "\<dots> \<le> x" using ilog2_bounds[OF assms(1)] by simp
  also have "\<dots> \<le> y" by (rule assms(2))
  finally have "2 powi (ilog2 y + 1) \<le> y" .
  moreover have "y < 2 powi (ilog2 y + 1)" using ilog2_bounds[of y] assms by simp
  ultimately show False by simp
qed

lemma ulp_exp_mono:
  assumes "0 < x" "x \<le> y"
  shows "ulp_exp x \<le> ulp_exp y"
  using ilog2_mono[OF assms] assms by (simp add: ulp_exp_def)

lemma pow2_split:
  assumes "e \<le> e'"
  shows "(2::rat) powi e' = of_int (2 ^ nat (e' - e)) * 2 powi e"
proof -
  have "(2::rat) powi e' = 2 powi ((e' - e) + e)" by simp
  also have "\<dots> = 2 powi (e' - e) * 2 powi e" by (rule power_int_add) simp
  also have "(2::rat) powi (e' - e) = 2 ^ nat (e' - e)" using assms by (simp add: power_int_def)
  finally show ?thesis by simp
qed

lemma to_double_nonneg:
  assumes "0 \<le> x"
  shows "0 \<le> to_double x"
proof (cases "x = 0")
  case True
  then show ?thesis by (simp add: to_double_def)
next
  case False
  have p: "(0::rat) < 2 powi ulp_exp x" by (simp add: zero_less_power_int)
  have "of_int 0 \<le> x / 2 powi ulp_exp x" using assms p by simp
  then have "0 \<le> round_even (x / 2 powi ulp_exp x)" by (rule round_even_ge)
  then show ?thesis using False p by (simp add: to_double_def)
qed

lemma to_double_le:
  assumes "0 \<le> x" "x \<le> c" "to_double c = c"
  shows "to_double x \<le> c"
proof (cases "x = 0")
  case True
  then show ?thesis using assms by (simp add: to_double_def)
next
  case False
  then have x: "0 < x" using assms(1) by simp
  then have c: "0 < c" using assms(2) by simp
  define e where "e = ulp_exp x"
  define e' where "e' = ulp_exp c"
  define m' where "m' = round_even (c / 2 powi e')"
  have ee: "e \<le> e'" unfolding e_def e'_def by (rule ulp_exp_mono[OF x assms(2)])
  have p: "(0::rat) < 2 powi e" by (simp add: zero_less_power_int)
  have "c = of_int m' * 2 powi e'"
    using assms(3) c by (simp add: to_double_def m'_def e'_def)
  also have "\<dots> = of_int m' * (of_int (2 ^ nat (e' - e)) * 2 powi e)"
    using pow2_split[OF ee] by simp
  finally have ck: "c = of_int (m' * 2 ^ nat (e' - e)) * 2 powi e" by simp
  have "x / 2 powi e \<le> c / 2 powi e" using assms(2) p by (simp add: divide_right_mono)
  also have "\<dots> = of_int (m' * 2 ^ nat (e' - e))" using p by (subst ck) simp
  finally have "round_even (x / 2 powi e) \<le> m' * 2 ^ nat (e' - e)" by (rule round_even_le)
  then have "(of_int (round_even (x / 2 powi e)) :: rat) \<le> of_int (m' * 2 ^ nat (e' - e))"
    by (simp only: of_int_le_iff)
  then have "(of_int (round_even (x / 2 powi e)) :: rat) * 2 powi e \<le> of_int (m' * 2 ^ nat (e' - e)) * 2 powi e"
    by (rule mult_right_mono) (rule less_imp_le[OF p])
  then show ?thesis using False ck by (simp add: to_double_def e_def)
qed



section \<open>Emotion fusion\<close>

text \<open>The constants of the fusion are doubles, and the two weights add up to exactly 1.\<close>

lemma lit_04_fixed: "to_double (lit (4 / 10)) = lit (4 / 10)"
  by code_simp

lemma lit_06_fixed: "to_double (lit (6 / 10)) = lit (6 / 10)"
  by code_simp

lemma lit_08_fixed: "to_double (lit (8 / 10)) = lit (8 / 10)"
  by code_simp

lemma one_fixed: "to_double 1 = 1"
  by code_simp

lemma weights_sum: "lit (4 / 10) + lit (6 / 10) = 1"
  by code_simp

lemma lit_08_le_1: "lit (8 / 10) \<le> 1"
  by code_simp

lemma lit_04_nonneg: "0 \<le> lit (4 / 10)"
  by code_simp

lemma lit_06_nonneg: "0 \<le> lit (6 / 10)"
  by code_simp

lemma lit_08_nonneg: "0 \<le> lit (8 / 10)"
  by code_simp

lemma min_confidence_value: "min_confidence = 5404319552844595 / 18014398509481984"
  by code_simp

text \<open>
  Claim C7. For all risk levels \<open>a\<close> and \<open>b\<close>, fusing a present voice analysis of risk
  \<open>a\<close> with a text analysis of risk \<open>b\<close> gives an analysis whose risk level is the maximum
  of \<open>a\<close> and \<open>b\<close> in the order low < medium < high < crisis.
\<close>

theorem fuse_risk_level_is_maximum:
  "risk_level (fuse_emotions (Some voice_analysis) text_analysis)
     = spec_risk_max (risk_level voice_analysis) (risk_level text_analysis)"
  by (cases "risk_level voice_analysis"; cases "risk_level text_analysis")
     (simp_all add: fuse_emotions_def Let_def)

theorem fuse_risk_level_is_maximum_witness:
  "risk_level (fuse_emotions (Some (sample_analysis CALM 1 HIGH))
                             (sample_analysis CALM 1 MEDIUM)) = HIGH"
  using fuse_risk_level_is_maximum[of "sample_analysis CALM 1 HIGH"
          "sample_analysis CALM 1 MEDIUM"]
  by (simp add: sample_analysis_def)

text \<open>The weighted sum of two confidences of \<open>[0, 1]\<close> stays in \<open>[0, 1]\<close> after each rounding.\<close>

lemma weighted_sum_in_unit:
  assumes "0 \<le> cv" "cv \<le> 1" "0 \<le> ct" "ct \<le> 1"
  shows "0 \<le> fadd (fmul cv voice_weight) (fmul ct text_weight)"
    and "fadd (fmul cv voice_weight) (fmul ct text_weight) \<le> 1"
proof -
  have a0: "0 \<le> cv * lit (4 / 10)"
    using assms lit_04_nonneg by simp
  have a1: "cv * lit (4 / 10) \<le> lit (4 / 10)"
    using assms lit_04_nonneg by (simp add: mult_left_le_one_le)
  have b0: "0 \<le> ct * lit (6 / 10)"
    using assms lit_06_nonneg by simp
  have b1: "ct * lit (6 / 10) \<le> lit (6 / 10)"
    using assms lit_06_nonneg by (simp add: mult_left_le_one_le)
  have A0: "0 \<le> fmul cv voice_weight"
    unfolding fmul_def voice_weight_def by (rule to_double_nonneg[OF a0])
  have A1: "fmul cv voice_weight \<le> lit (4 / 10)"
    unfolding fmul_def voice_weight_def by (rule to_double_le[OF a0 a1 lit_04_fixed])
  have B0: "0 \<le> fmul ct text_weight"
    unfolding fmul_def text_weight_def by (rule to_double_nonneg[OF b0])
  have B1: "fmul ct text_weight \<le> lit (6 / 10)"
    unfolding fmul_def text_weight_def by (rule to_double_le[OF b0 b1 lit_06_fixed])
  have s0: "0 \<le> fmul cv voice_weight + fmul ct text_weight"
    using A0 B0 by simp
  have s1: "fmul cv voice_weight + fmul ct text_weight \<le> 1"
    using A1 B1 weights_sum by linarith
  show "0 \<le> fadd (fmul cv voice_weight) (fmul ct text_weight)"
    unfolding fadd_def by (rule to_double_nonneg[OF s0])
  show "fadd (fmul cv voice_weight) (fmul ct text_weight) \<le> 1"
    unfolding fadd_def by (rule to_double_le[OF s0 s1 one_fixed])
qed

text \<open>
  Claim C9. For every pair of analyses whose confidences lie in \<open>[0, 1]\<close>, the confidence
  of the fused analysis lies between the minimum-confidence constant (the double
  \<^verbatim>\<open>0.3\<close>) and 1: it is the 0.4/0.6 weighted sum, plus 0.2 and clamped to 1.0 when the
  emotions agree, times 0.8 when they disagree, and finally floored at the constant.
\<close>

theorem fused_confidence_in_range:
  assumes "0 \<le> confidence voice_analysis" "confidence voice_analysis \<le> 1"
    and "0 \<le> confidence text_analysis" "confidence text_analysis \<le> 1"
  shows "min_confidence \<le> confidence (fuse_emotions (Some voice_analysis) text_analysis)
    \<and> confidence (fuse_emotions (Some voice_analysis) text_analysis) \<le> 1
    \<and> 0 < min_confidence
    \<and> confidence (fuse_emotions (Some voice_analysis) text_analysis)
        = py_max
            (if primary_emotion voice_analysis = primary_emotion text_analysis
             then py_min (fadd (fadd (fmul (confidence voice_analysis) voice_weight)
                                     (fmul (confidence text_analysis) text_weight))
                               agreement_bonus) 1
             else fmul (fadd (fmul (confidence voice_analysis) voice_weight)
                             (fmul (confidence text_analysis) text_weight))
                       (lit (8 / 10)))
            min_confidence"
proof -
  define w where "w = fadd (fmul (confidence voice_analysis) voice_weight)
                           (fmul (confidence text_analysis) text_weight)"
  define c where "c = (if primary_emotion voice_analysis = primary_emotion text_analysis
                       then py_min (fadd w agreement_bonus) 1 else fmul w (lit (8 / 10)))"
  have w0: "0 \<le> w" and w1: "w \<le> 1"
    unfolding w_def by (rule weighted_sum_in_unit[OF assms])+
  have eq: "confidence (fuse_emotions (Some voice_analysis) text_analysis)
              = py_max c min_confidence"
    by (simp add: fuse_emotions_def Let_def c_def w_def)
  have m1: "min_confidence \<le> 1" and m0: "0 < min_confidence"
    by (simp_all add: min_confidence_value)
  have "w * lit (8 / 10) \<le> lit (8 / 10)"
    using w0 w1 lit_08_nonneg by (simp add: mult_left_le_one_le)
  moreover have "0 \<le> w * lit (8 / 10)"
    using w0 lit_08_nonneg by simp
  ultimately have "fmul w (lit (8 / 10)) \<le> lit (8 / 10)"
    unfolding fmul_def using lit_08_fixed by (simp add: to_double_le)
  then have d: "fmul w (lit (8 / 10)) \<le> 1"
    using lit_08_le_1 by simp
  have "py_min (fadd w agreement_bonus) 1 \<le> 1"
    by (simp add: py_min_def)
  with d have c1: "c \<le> 1"
    by (simp add: c_def)
  have lo: "min_confidence \<le> py_max c min_confidence"
    by (simp add: py_max_def)
  have hi: "py_max c min_confidence \<le> 1"
    using c1 m1 by (simp add: py_max_def)
  show ?thesis
    using lo hi m0 eq by (simp add: c_def w_def)
qed

theorem fused_confidence_in_range_witness:
  "min_confidence
     \<le> confidence (fuse_emotions (Some (sample_analysis DEPRESSED (lit (9 / 10)) HIGH))
                                  (sample_analysis ANXIOUS (lit (1 / 10)) LOW))
   \<and> confidence (fuse_emotions (Some (sample_analysis DEPRESSED (lit (9 / 10)) HIGH))
                                  (sample_analysis ANXIOUS (lit (1 / 10)) LOW)) \<le> 1"
proof -
  have a: "0 \<le> confidence (sample_analysis DEPRESSED (lit (9 / 10)) HIGH)
         \<and> confidence (sample_analysis DEPRESSED (lit (9 / 10)) HIGH) \<le> 1"
    by code_simp
  have b: "0 \<le> confidence (sample_analysis ANXIOUS (lit (1 / 10)) LOW)
         \<and> confidence (sample_analysis ANXIOUS (lit (1 / 10)) LOW) \<le> 1"
    by code_simp
  show ?thesis
    using fused_confidence_in_range[of "sample_analysis DEPRESSED (lit (9 / 10)) HIGH"
            "sample_analysis ANXIOUS (lit (1 / 10)) LOW"] a b
    by blast
qed


section \<open>The voice scorer\<close>

text \<open>
  Claim C8. For the voice features \<^verbatim>\<open>{pitch_mean: 110, pitch_variance: 15, speech_rate: 90,
  energy: 0.1}\<close>, with \<^verbatim>\<open>avg_pause_duration\<close> defaulted to 0.5, the scorer returns
  primary emotion DEPRESSED and risk level CRISIS. The depressed score is the unique
  maximum of the six scores (the others are 0, 0.3, 0, 0 and 0.2); it is the double sum
  \<^verbatim>\<open>0.0 + 0.4 + 0.3 + 0.2\<close>, which is within \<open>2\<^sup>-\<^sup>5\<^sup>3\<close> of 0.9 (Python prints it as
  \<^verbatim>\<open>0.8999999999999999\<close>). The crisis rule fires: the score exceeds 0.8, the energy 0.1
  is below 0.2 and the speech rate 90 is below 100.
\<close>

theorem voice_scenario_depressed_crisis:
  "analyze_voice_features scenario_features
     = Inr \<lparr> primary_emotion = DEPRESSED,
             confidence = 2026619832316723 / 2251799813685248,
             risk_level = CRISIS,
             emotional_indicators =
               [''Slow speech pattern'', ''Low vocal energy'', ''Monotone speech''],
             suggested_technique = ''crisis_intervention'',
             intensity = ''high'',
             patterns = [''potential_depression_indicators''] \<rparr>
   \<and> calculate_emotion_scores 110 15 90 (lit (1 / 10)) (lit (5 / 10))
     = [(ANXIOUS, 0), (DEPRESSED, 2026619832316723 / 2251799813685248),
        (STRESSED, lit (3 / 10)), (ANGRY, 0), (HAPPY, 0), (CALM, lit (2 / 10))]
   \<and> fadd (fadd (fadd 0 (lit (4 / 10))) (lit (3 / 10))) (lit (2 / 10))
     = 2026619832316723 / 2251799813685248
   \<and> \<bar>2026619832316723 / 2251799813685248 - 9 / 10\<bar> < (1 / 2 ^ 53 :: rat)
   \<and> lit (3 / 10) < 2026619832316723 / 2251799813685248
   \<and> lit (2 / 10) < 2026619832316723 / 2251799813685248
   \<and> lit (8 / 10) < 2026619832316723 / 2251799813685248
   \<and> lit (1 / 10) < lit (2 / 10)"
  by code_simp

theorem voice_scenario_depressed_crisis_witness:
  "(case analyze_voice_features scenario_features of
      Inl e \<Rightarrow> False
    | Inr r \<Rightarrow> primary_emotion r = DEPRESSED \<and> risk_level r = CRISIS)"
  using voice_scenario_depressed_crisis by simp

section \<open>The text analyzer\<close>

text \<open>
  \<open>startswith\<close> and \<open>contains\<close> are the prefix and the substring tests, and \<open>any_in\<close>
  holds when some keyword of the list occurs in the text.
\<close>

lemma startswith_iff: "startswith s p \<longleftrightarrow> (\<exists>rest. s = p @ rest)"
  by (induction s p rule: startswith.induct) auto

lemma contains_iff: "contains s k \<longleftrightarrow> (\<exists>pre post. s = pre @ k @ post)"
proof (induction s)
  case Nil
  then show ?case by auto
next
  case (Cons c cs)
  show ?case
  proof
    assume "contains (c # cs) k"
    then consider "startswith (c # cs) k" | "contains cs k" by auto
    then show "\<exists>pre post. c # cs = pre @ k @ post"
    proof cases
      case 1
      then obtain rest where "c # cs = k @ rest" by (auto simp: startswith_iff)
      then have "c # cs = [] @ k @ rest" by simp
      then show ?thesis by blast
    next
      case 2
      then obtain pre post where "cs = pre @ k @ post" using Cons.IH by auto
      then have "c # cs = (c # pre) @ k @ post" by simp
      then show ?thesis by blast
    qed
  next
    assume "\<exists>pre post. c # cs = pre @ k @ post"
    then obtain pre post where e: "c # cs = pre @ k @ post" by blast
    show "contains (c # cs) k"
    proof (cases pre)
      case Nil
      then have "startswith (c # cs) k" using e by (auto simp: startswith_iff)
      then show ?thesis by simp
    next
      case (Cons d ds)
      then have "cs = ds @ k @ post" using e by simp
      then have "contains cs k" using Cons.IH by blast
      then show ?thesis by simp
    qed
  qed
qed

lemma any_in_iff: "any_in ks text \<longleftrightarrow> (\<exists>k \<in> set ks. contains text k)"
  by (induction ks) auto

lemma fallback_risk:
  "risk_level (fallback_text_analysis text flag) = (if flag then CRISIS else LOW)"
  by (simp add: fallback_text_analysis_def Let_def split: prod.splits list.splits)

lemma end_it_all_keyword: "''end it all'' \<in> set crisis_keywords"
  by (simp add: crisis_keywords_def)

lemma end_it_all_contained: "contains (lower ''I want to end it all'') ''end it all''"
  by code_simp

lemma sample_payload_no_indicators: "get_or (g_crisis_indicators sample_payload) [] = []"
  by (simp add: sample_payload_def get_or_def)

text \<open>
  Claim C1. For every text whose lowercased form contains one of the crisis keywords,
  \<open>analyze_text_emotion\<close> returns risk level CRISIS, whatever the generative model
  reports, and also when the model call fails and the keyword fallback answers.
\<close>

theorem crisis_keyword_forces_crisis:
  assumes "k \<in> set crisis_keywords" and "contains (lower text) k"
  shows "risk_level (analyze_text_emotion text outcome) = CRISIS"
proof -
  have d: "detect_crisis_keywords (lower text)"
    using assms by (auto simp: detect_crisis_keywords_def any_in_iff)
  show ?thesis
  proof (cases outcome)
    case Raised
    then show ?thesis using d by (simp add: analyze_text_emotion_def fallback_risk)
  next
    case (Returned gemma)
    then show ?thesis using d by (simp add: analyze_text_emotion_def Let_def)
  qed
qed

theorem crisis_keyword_forces_crisis_witness:
  "''end it all'' \<in> set crisis_keywords
   \<and> contains (lower ''I want to end it all'') ''end it all''
   \<and> risk_level (analyze_text_emotion ''I want to end it all'' (Returned sample_payload)) = CRISIS
   \<and> risk_level (analyze_text_emotion ''I want to end it all'' Raised) = CRISIS"
  using crisis_keyword_forces_crisis[OF end_it_all_keyword end_it_all_contained, of "Returned sample_payload"]
        crisis_keyword_forces_crisis[OF end_it_all_keyword end_it_all_contained, of Raised]
        end_it_all_keyword end_it_all_contained
  by simp

text \<open>
  Claim C2 says that a successful model analysis with an empty crisis-indicator list
  makes \<open>analyze_text_emotion\<close> fall back to the keyword analysis when a crisis keyword
  is present. The code does not: for the text \<^verbatim>\<open>I want to end it all\<close> and a payload
  without crisis indicators, the result keeps the model's emotion and patterns, and its
  indicators are the model's positive indicators followed by
  \<^verbatim>\<open>Crisis keywords detected\<close>.
\<close>

theorem empty_crisis_indicators_counterexample:
  "''end it all'' \<in> set crisis_keywords
   \<and> contains (lower ''I want to end it all'') ''end it all''
   \<and> g_crisis_indicators sample_payload = Some []
   \<and> emotional_indicators (analyze_text_emotion ''I want to end it all'' (Returned sample_payload))
       = [''reaching out'', ''Crisis keywords detected'']
   \<and> emotional_indicators (analyze_text_emotion ''I want to end it all'' (Returned sample_payload))
       \<noteq> [''Keyword-based analysis'']
   \<and> patterns (analyze_text_emotion ''I want to end it all'' (Returned sample_payload))
       = [''hopelessness'']
   \<and> patterns (analyze_text_emotion ''I want to end it all'' (Returned sample_payload))
       \<noteq> [''fallback_analysis'']
   \<and> primary_emotion (analyze_text_emotion ''I want to end it all'' (Returned sample_payload))
       = DEPRESSED"
  by code_simp

text \<open>
  Claim C2, amended. For every text whose lowercased form contains a crisis keyword, if
  the model analysis succeeds with an empty (or absent) crisis-indicator list, the
  result keeps the model's emotion, confidence, intensity and patterns, has risk level
  CRISIS and technique \<^verbatim>\<open>crisis_intervention\<close>, and its indicators are the model's
  positive indicators followed by \<^verbatim>\<open>Crisis keywords detected\<close>. The keyword fallback,
  with indicators \<^verbatim>\<open>Keyword-based analysis\<close> and patterns \<^verbatim>\<open>fallback_analysis\<close>, answers
  when the model analysis raises.
\<close>

theorem empty_crisis_indicators_keep_model_analysis:
  assumes "k \<in> set crisis_keywords" and "contains (lower text) k"
    and "get_or (g_crisis_indicators gemma) [] = []"
  shows "analyze_text_emotion text (Returned gemma)
     = \<lparr> primary_emotion = string_to_emotion (get_or (g_primary_emotion gemma) ''calm''),
         confidence = get_or (g_confidence gemma) (lit (5 / 10)),
         risk_level = CRISIS,
         emotional_indicators =
           get_or (g_positive_indicators gemma) [] @ [''Crisis keywords detected''],
         suggested_technique = ''crisis_intervention'',
         intensity = get_or (g_intensity gemma) ''medium'',
         patterns = get_or (g_emotional_patterns gemma) [] \<rparr>
    \<and> emotional_indicators (analyze_text_emotion text Raised) = [''Keyword-based analysis'']
    \<and> patterns (analyze_text_emotion text Raised) = [''fallback_analysis'']"
proof -
  have d: "detect_crisis_keywords (lower text)"
    using assms by (auto simp: detect_crisis_keywords_def any_in_iff)
  show ?thesis using d assms(3)
    by (simp add: analyze_text_emotion_def Let_def suggest_text_technique_def
        fallback_text_analysis_def split: prod.splits list.splits)
qed

theorem empty_crisis_indicators_keep_model_analysis_witness:
  "''end it all'' \<in> set crisis_keywords
   \<and> contains (lower ''I want to end it all'') ''end it all''
   \<and> get_or (g_crisis_indicators sample_payload) [] = []
   \<and> emotional_indicators (analyze_text_emotion ''I want to end it all'' (Returned sample_payload))
       = [''reaching out'', ''Crisis keywords detected'']
   \<and> risk_level (analyze_text_emotion ''I want to end it all'' (Returned sample_payload)) = CRISIS"
  using empty_crisis_indicators_keep_model_analysis[OF end_it_all_keyword end_it_all_contained
          sample_payload_no_indicators]
        end_it_all_keyword end_it_all_contained sample_payload_no_indicators
  by (simp add: sample_payload_def get_or_def)

text \<open>
  Claim C3 expects the keyword fallback to answer CALM with confidence 0.3 when no
  emotion keyword occurs in the text. The score dict always has its five entries, so
  the \<^verbatim>\<open>else\<close> branch that holds this default is never taken: for the text
  \<^verbatim>\<open>hello there\<close> every score is 0, \<^verbatim>\<open>max\<close> keeps the first key, and the result is
  ANXIOUS with confidence 0 (and risk level LOW, as the claim says).
\<close>

theorem fallback_on_neutral_text:
  "keyword_scores (lower ''hello there'')
     = [(ANXIOUS, 0), (DEPRESSED, 0), (STRESSED, 0), (ANGRY, 0), (HAPPY, 0)]
   \<and> detect_crisis_keywords (lower ''hello there'') = False
   \<and> fallback_text_analysis ''hello there'' False
     = \<lparr> primary_emotion = ANXIOUS, confidence = 0, risk_level = LOW,
         emotional_indicators = [''Keyword-based analysis''],
         suggested_technique = ''validation'', intensity = ''medium'',
         patterns = [''fallback_analysis''] \<rparr>
   \<and> analyze_text_emotion ''hello there'' Raised
     = fallback_text_analysis ''hello there'' False
   \<and> primary_emotion (analyze_text_emotion ''hello there'' Raised) \<noteq> CALM
   \<and> confidence (analyze_text_emotion ''hello there'' Raised) \<noteq> lit (3 / 10)"
  by code_simp

text \<open>The same holds for every text in which no emotion keyword occurs.\<close>

lemma fallback_all_scores_zero:
  assumes "\<forall>(e, ks) \<in> set emotion_keywords. count_matches ks (lower text) = 0"
  shows "primary_emotion (fallback_text_analysis text flag) = ANXIOUS
       \<and> confidence (fallback_text_analysis text flag) = 0"
proof -
  have z: "fdiv 0 n = 0" for n
    by (simp add: fdiv_def to_double_def)
  have "keyword_scores (lower text)
          = [(ANXIOUS, 0), (DEPRESSED, 0), (STRESSED, 0), (ANGRY, 0), (HAPPY, 0)]"
    using assms by (simp add: keyword_scores_def emotion_keywords_def z)
  then show ?thesis
    by (simp add: fallback_text_analysis_def Let_def)
qed


section \<open>The conversation manager\<close>

subsection \<open>Suggesting professional help\<close>

lemma risk_flags_update_therapeutic_goals [simp]:
  "risk_flags (update_therapeutic_goals c e) = risk_flags c"
  by (simp add: update_therapeutic_goals_def Let_def)

lemma crisis_flag_after_update:
  "risk_level e = CRISIS \<Longrightarrow> ''session_crisis_detected'' \<in> set (risk_flags (update_risk_assessment c e))"
  by (simp add: update_risk_assessment_def Let_def)

text \<open>
  Claim C4. For every context, \<open>should_suggest_professional_help\<close> holds exactly when
  \<^verbatim>\<open>session_crisis_detected\<close> is among the risk flags, or both
  \<^verbatim>\<open>session_persistent_negative_mood\<close> and \<^verbatim>\<open>session_escalating_risk\<close> are, or the session
  has lasted more than two hours (in microseconds) and holds more than 15 interactions.
  In particular it holds right after one \<open>add_interaction\<close> whose analysis has risk
  level CRISIS, for every context, history limit and clock.
\<close>

theorem professional_help_rule:
  "(should_suggest_professional_help now context \<longleftrightarrow>
      ''session_crisis_detected'' \<in> set (risk_flags context)
      \<or> (''session_persistent_negative_mood'' \<in> set (risk_flags context)
          \<and> ''session_escalating_risk'' \<in> set (risk_flags context))
      \<or> (2 * 3600 * 1000000 < now - session_start context
          \<and> 15 < length (conversation_history context)))
   \<and> (risk_level emotion_analysis = CRISIS \<longrightarrow>
        should_suggest_professional_help now
          (add_interaction mh context t_stamp t_last user_input ai_response emotion_analysis))"
proof -
  have "risk_level emotion_analysis = CRISIS \<Longrightarrow>
        ''session_crisis_detected'' \<in> set (risk_flags
          (add_interaction mh context t_stamp t_last user_input ai_response emotion_analysis))"
    by (simp add: add_interaction_def Let_def crisis_flag_after_update)
  then show ?thesis
    by (auto simp: should_suggest_professional_help_def two_hours_def)
qed

theorem professional_help_rule_witness:
  "risk_level (sample_analysis DEPRESSED (lit (9 / 10)) CRISIS) = CRISIS
   \<and> should_suggest_professional_help 5
        (add_interaction 20 (fresh_context ''user'' ''session'' 0 0) 1 2 ''I want to end it all''
           ''I am here with you'' (sample_analysis DEPRESSED (lit (9 / 10)) CRISIS))
   \<and> \<not> should_suggest_professional_help 5 (fresh_context ''user'' ''session'' 0 0)"
proof -
  have r: "risk_level (sample_analysis DEPRESSED (lit (9 / 10)) CRISIS) = CRISIS"
    by (simp add: sample_analysis_def)
  have n: "\<not> (''session_crisis_detected'' \<in> set (risk_flags (fresh_context ''user'' ''session'' 0 0))
      \<or> (''session_persistent_negative_mood'' \<in> set (risk_flags (fresh_context ''user'' ''session'' 0 0))
          \<and> ''session_escalating_risk'' \<in> set (risk_flags (fresh_context ''user'' ''session'' 0 0)))
      \<or> (2 * 3600 * 1000000 < 5 - session_start (fresh_context ''user'' ''session'' 0 0)
          \<and> 15 < length (conversation_history (fresh_context ''user'' ''session'' 0 0))))"
    by (simp add: fresh_context_def)
  show ?thesis
    using professional_help_rule[of 5 "fresh_context ''user'' ''session'' 0 0"
            "sample_analysis DEPRESSED (lit (9 / 10)) CRISIS" 20 1 2 "''I want to end it all''"
            "''I am here with you''"] r n
    by blast
qed

subsection \<open>Bounded histories\<close>

text \<open>
  The two flag and goal updates leave the histories alone, and \<open>add_interaction\<close> cuts
  both lists at the same place: whatever the limit, two histories of equal length stay
  of equal length.
\<close>

lemma histories_update_risk_assessment [simp]:
  "conversation_history (update_risk_assessment c e) = conversation_history c"
  "emotion_history (update_risk_assessment c e) = emotion_history c"
  by (simp_all add: update_risk_assessment_def Let_def)

lemma histories_update_therapeutic_goals [simp]:
  "conversation_history (update_therapeutic_goals c e) = conversation_history c"
  "emotion_history (update_therapeutic_goals c e) = emotion_history c"
  by (simp_all add: update_therapeutic_goals_def Let_def)

lemma length_slice_from:
  "length xs = length ys \<Longrightarrow> length (slice_from i xs) = length (slice_from i ys)"
  by (simp add: slice_from_def)

lemma add_interaction_same_length:
  assumes "length (conversation_history c) = length (emotion_history c)"
  shows "length (conversation_history (add_interaction mh c t_stamp t_last u a e))
           = length (emotion_history (add_interaction mh c t_stamp t_last u a e))"
  using assms by (simp add: add_interaction_def Let_def length_slice_from)

lemma add_interactions_same_length:
  assumes "length (conversation_history c) = length (emotion_history c)"
  shows "length (conversation_history (add_interactions mh c calls))
           = length (emotion_history (add_interactions mh c calls))"
  using assms
proof (induction calls arbitrary: c)
  case Nil
  then show ?case by simp
next
  case (Cons x calls)
  obtain t_stamp t_last u a e where x: "x = (t_stamp, t_last, u, a, e)"
    by (cases x) auto
  show ?case
    unfolding x add_interactions.simps
    by (rule Cons.IH) (rule add_interaction_same_length[OF Cons.prems])
qed

lemma histories_same_length:
  "length (conversation_history (add_interactions mh (fresh_context uid sid t0 t1) calls))
     = length (emotion_history (add_interactions mh (fresh_context uid sid t0 t1) calls))"
  by (rule add_interactions_same_length) (simp add: fresh_context_def)

text \<open>
  For a positive limit the slice \<^verbatim>\<open>xs[-max_history:]\<close> is the last \<open>max_history\<close>
  elements, and appending to the last \<open>n\<close> elements and cutting again is cutting the
  longer list. So with a limit of at least 1 both histories of a context that starts
  empty hold the last \<open>max_history\<close> calls, evicted in lockstep.
\<close>

lemma slice_from_last_n: "1 \<le> mh \<Longrightarrow> slice_from (- mh) xs = last_n (nat mh) xs"
  by (simp add: slice_from_def last_n_def)

lemma last_n_short: "length xs \<le> n \<Longrightarrow> last_n n xs = xs"
  by (simp add: last_n_def)

lemma length_last_n: "length (last_n n xs) = min n (length xs)"
  by (auto simp: last_n_def)

lemma last_n_snoc:
  assumes "1 \<le> n"
  shows "last_n n (last_n n xs @ [x]) = last_n n (xs @ [x])"
proof (cases "length xs \<le> n")
  case True
  then show ?thesis by (simp add: last_n_short)
next
  case False
  then have k: "Suc n - n + (length xs - n) = Suc (length xs) - n"
    using assms by arith
  have "last_n n (last_n n xs @ [x]) = drop (Suc n - n) (drop (length xs - n) xs) @ [x]"
    using False assms by (simp add: last_n_def)
  also have "\<dots> = drop (Suc (length xs) - n) xs @ [x]"
    by (simp only: drop_drop k)
  also have "\<dots> = last_n n (xs @ [x])"
    using False assms by (simp add: last_n_def)
  finally show ?thesis .
qed

lemma add_interaction_histories:
  assumes "1 \<le> mh" and "length (conversation_history c) = length (emotion_history c)"
  shows "conversation_history (add_interaction mh c t_stamp t_last u a e)
           = last_n (nat mh) (conversation_history c @ [make_interaction t_stamp u a e])"
    and "emotion_history (add_interaction mh c t_stamp t_last u a e)
           = last_n (nat mh) (emotion_history c @ [e])"
  using assms
  by (auto simp: add_interaction_def Let_def slice_from_last_n last_n_short)

lemma add_interactions_histories:
  assumes "1 \<le> mh"
    and "conversation_history c = last_n (nat mh) (map call_entry before)"
    and "emotion_history c = last_n (nat mh) (map call_analysis before)"
  shows "conversation_history (add_interactions mh c calls)
           = last_n (nat mh) (map call_entry (before @ calls))
       \<and> emotion_history (add_interactions mh c calls)
           = last_n (nat mh) (map call_analysis (before @ calls))"
  using assms(2,3)
proof (induction calls arbitrary: c before)
  case Nil
  then show ?case by simp
next
  case (Cons x calls)
  obtain t_stamp t_last u a e where x: "x = (t_stamp, t_last, u, a, e)"
    by (cases x) auto
  have n: "1 \<le> nat mh" using assms(1) by simp
  have len: "length (conversation_history c) = length (emotion_history c)"
    using Cons.prems by (simp add: length_last_n)
  let ?c = "add_interaction mh c t_stamp t_last u a e"
  have h: "conversation_history ?c = last_n (nat mh) (map call_entry (before @ [x]))"
    using add_interaction_histories(1)[OF assms(1) len] Cons.prems(1) n
    by (simp add: x last_n_snoc)
  have g: "emotion_history ?c = last_n (nat mh) (map call_analysis (before @ [x]))"
    using add_interaction_histories(2)[OF assms(1) len] Cons.prems(2) n
    by (simp add: x last_n_snoc)
  show ?case
    using Cons.IH[OF h g] by (simp add: x)
qed

lemma histories_bounded_in_lockstep:
  assumes "1 \<le> mh"
  shows "length (conversation_history (add_interactions mh (fresh_context uid sid t0 t1) calls))
           = length (emotion_history (add_interactions mh (fresh_context uid sid t0 t1) calls))
    \<and> int (length (conversation_history (add_interactions mh (fresh_context uid sid t0 t1) calls)))
           \<le> mh
    \<and> conversation_history (add_interactions mh (fresh_context uid sid t0 t1) calls)
           = last_n (nat mh) (map call_entry calls)
    \<and> emotion_history (add_interactions mh (fresh_context uid sid t0 t1) calls)
           = last_n (nat mh) (map call_analysis calls)"
proof -
  have a: "conversation_history (fresh_context uid sid t0 t1) = last_n (nat mh) (map call_entry [])"
    and b: "emotion_history (fresh_context uid sid t0 t1) = last_n (nat mh) (map call_analysis [])"
    by (simp_all add: fresh_context_def last_n_def)
  have "conversation_history (add_interactions mh (fresh_context uid sid t0 t1) calls)
           = last_n (nat mh) (map call_entry ([] @ calls))
       \<and> emotion_history (add_interactions mh (fresh_context uid sid t0 t1) calls)
           = last_n (nat mh) (map call_analysis ([] @ calls))"
    by (rule add_interactions_histories[OF assms a b])
  then show ?thesis using assms by (auto simp: length_last_n)
qed

lemma histories_last_three_of_five:
  "emotion_history (add_interactions 3 (fresh_context ''user'' ''session'' 0 0) five_calls)
       = [sample_analysis STRESSED 1 MEDIUM, sample_analysis ANXIOUS 1 HIGH,
          sample_analysis HAPPY 1 LOW]
   \<and> map i_user (conversation_history
         (add_interactions 3 (fresh_context ''user'' ''session'' 0 0) five_calls))
       = [''m3'', ''m4'', ''m5'']"
proof -
  have h: "(1::int) \<le> 3" by simp
  show ?thesis
    using histories_bounded_in_lockstep[OF h, of "''user''" "''session''" 0 0 five_calls]
    by (simp add: five_calls_def last_n_def make_interaction_def)
qed

lemma zero_m1_value:
  "get_or_create_context (new_manager 0 3600) ''9a1f'' 0 0 0 ''user'' (Some ''session'')
     = Inr (0, zero_m1)"
  by (simp add: zero_m1_def get_or_create_context_def create_new_context_def Let_def
      new_manager_def)

text \<open>
  Claim C5. For every context created by the manager and every sequence of
  \<open>add_interaction\<close> calls, the two histories have the same length and at most
  \<^verbatim>\<open>max_history\<close> entries. The code keeps the lengths equal for every limit, and keeps
  the bound for every limit of at least 1 (the lemmas above), but not for the limit 0,
  which the constructor accepts: the truncation \<^verbatim>\<open>history[-self.max_history:]\<close> is then
  \<^verbatim>\<open>history[-0:]\<close>, the whole list. A manager with \<^verbatim>\<open>max_history = 0\<close> leaves one entry in
  both lists after one interaction and five entries after five.
\<close>

theorem history_unbounded_at_zero:
  "max_history (new_manager 0 3600) = 0
   \<and> get_or_create_context (new_manager 0 3600) ''9a1f'' 0 0 0 ''user'' (Some ''session'')
       = Inr (0, zero_m1)
   \<and> max_history zero_m1 = 0
   \<and> objects zero_m1 = [fresh_context ''user'' ''session'' 0 0]
   \<and> length (conversation_history
        (objects (add_interaction_at zero_m1 0 1 1 ''m1'' ''r1''
                    (sample_analysis CALM 1 LOW)) ! 0)) = 1
   \<and> length (emotion_history
        (objects (add_interaction_at zero_m1 0 1 1 ''m1'' ''r1''
                    (sample_analysis CALM 1 LOW)) ! 0)) = 1
   \<and> \<not> int (length (conversation_history
        (objects (add_interaction_at zero_m1 0 1 1 ''m1'' ''r1''
                    (sample_analysis CALM 1 LOW)) ! 0))) \<le> max_history zero_m1
   \<and> length (conversation_history
        (add_interactions 0 (fresh_context ''user'' ''session'' 0 0) five_calls)) = 5
   \<and> length (emotion_history
        (add_interactions 0 (fresh_context ''user'' ''session'' 0 0) five_calls)) = 5"
  using zero_m1_value
  by (simp add: zero_m1_def new_manager_def add_interaction_at_def add_interaction_def
      fresh_context_def Let_def slice_from_def create_new_context_def five_calls_def)

subsection \<open>Sessions and their expiry\<close>













section \<open>The crisis detector\<close>

























end
